theory Spec2Isabelle
  imports Complex_Main
begin

section \<open>Data model of \<open>production_line_control.py\<close>\<close>

text \<open>
  Python floats are modelled as \<open>real\<close> and Python's unbounded integers as \<open>int\<close>.
  The two sources of nondeterminism of the program, the pseudo-random generator and the
  wall clock, are inputs of the model: every function that calls \<open>random.random()\<close>,
  \<open>random.uniform(0.8, 1.0)\<close> or \<open>time.time()\<close> takes the value returned by that call
  as an argument. Logging and \<open>time.sleep\<close> have no effect on the modelled state.
\<close>

record Configuration =
  max_speed :: real
  error_threshold :: real
  maintenance_interval :: real
  sensor_count :: int

text \<open>\<open>Configuration._load_config\<close>: the defaults.\<close>

definition load_config :: Configuration where
  "load_config =
     \<lparr>max_speed = 100, error_threshold = 5 / 100, maintenance_interval = 3600,
      sensor_count = 4\<rparr>"

datatype MachineState = IDLE | RUNNING | ERROR | MAINTENANCE

datatype exn = RuntimeError string

text \<open>An observer is identified by the position it was created at; its \<open>update\<close> method
  is external code, and the calls made to it are recorded in the order they are made.\<close>

type_synonym observer = nat

text \<open>The dictionary \<open>metrics_history\<close>: four lists under fixed keys.\<close>

record history =
  h_time :: "real list"
  h_production_rate :: "real list"
  h_error_count :: "int list"
  h_total_produced :: "int list"

text \<open>The dictionary \<open>metrics\<close> built by \<open>notify_observers\<close>.\<close>

record metrics =
  m_production_rate :: real
  m_error_count :: int
  m_total_produced :: int
  m_uptime :: real

text \<open>The fields of a \<open>ProductionLine\<close> object; \<open>running\<close> is the attribute
  \<open>_running\<close>. The lock \<open>_lock\<close> is free whenever a method is entered in a sequential
  execution and is released at every exit of a \<open>with\<close> block, so it is not a field here;
  which accesses happen inside the \<open>with\<close> blocks is modelled separately below.\<close>

record ProductionLine =
  config :: Configuration
  state :: MachineState
  production_rate :: real
  error_count :: int
  total_produced :: int
  uptime :: real
  start_time :: real
  observers :: "observer list"
  running :: bool
  metrics_history :: history

text \<open>What a method acts on: the object, the calls \<open>observer.update(state, metrics)\<close> made
  so far, and the number of worker threads started so far.\<close>

record world =
  line :: ProductionLine
  updates :: "(observer \<times> MachineState \<times> metrics) list"
  threads :: nat

section \<open>Operations\<close>

text \<open>\<open>ProductionLine.__init__\<close>; \<open>cfg\<close> is the shared \<open>Configuration\<close> instance
  (\<open>load_config\<close> unless its attributes have been reassigned) and \<open>now\<close> is the value
  of \<open>time.time()\<close>.\<close>

definition ProductionLine_init :: "Configuration \<Rightarrow> real \<Rightarrow> ProductionLine" where
  "ProductionLine_init cfg now =
     \<lparr>config = cfg, state = IDLE, production_rate = 0, error_count = 0, total_produced = 0,
      uptime = 0, start_time = now, observers = [], running = False,
      metrics_history =
        \<lparr>h_time = [], h_production_rate = [], h_error_count = [], h_total_produced = []\<rparr>\<rparr>"

definition fresh :: "Configuration \<Rightarrow> real \<Rightarrow> world" where
  "fresh cfg now = \<lparr>line = ProductionLine_init cfg now, updates = [], threads = 0\<rparr>"

definition register_observer :: "observer \<Rightarrow> world \<Rightarrow> world" where
  "register_observer ob w = w\<lparr>line := (line w)\<lparr>observers := observers (line w) @ [ob]\<rparr>\<rparr>"

definition snapshot :: "ProductionLine \<Rightarrow> metrics" where
  "snapshot l =
     \<lparr>m_production_rate = production_rate l, m_error_count = error_count l,
      m_total_produced = total_produced l, m_uptime = uptime l\<rparr>"

definition notify_observers :: "world \<Rightarrow> world" where
  "notify_observers w =
     w\<lparr>updates := updates w @
          map (\<lambda>ob. (ob, state (line w), snapshot (line w))) (observers (line w))\<rparr>"

definition start_production :: "world \<Rightarrow> world" where
  "start_production w =
     (if state (line w) \<noteq> IDLE then w
      else
        let w1 = w\<lparr>line := (line w)\<lparr>state := RUNNING, running := True\<rparr>\<rparr>;
            w2 = notify_observers w1
        in w2\<lparr>threads := threads w2 + 1\<rparr>)"

definition stop_production :: "world \<Rightarrow> world" where
  "stop_production w =
     (if state (line w) \<noteq> RUNNING then w
      else notify_observers (w\<lparr>line := (line w)\<lparr>running := False, state := IDLE\<rparr>\<rparr>))"

text \<open>Python's \<open>int()\<close> on a float truncates towards zero.\<close>

definition py_int :: "real \<Rightarrow> int" where
  "py_int x = (if 0 \<le> x then \<lfloor>x\<rfloor> else \<lceil>x\<rceil>)"

text \<open>The last two statements of \<open>_simulate_production_cycle\<close>; \<open>u\<close> is the value of
  \<open>random.uniform(0.8, 1.0)\<close>. The product and the quotient are the exact ones, where the
  code rounds each to a float. The two agree on the increment of \<open>total_produced\<close> when
  the quotient is not within rounding distance of an integer: at the maximum speed of 100
  that \<open>_load_config\<close> sets, the quotient lies between 1.33 and 1.67 and the increment
  is 1 either way. Off that configuration they can differ by one unit, so every statement
  below about the size of the increment is made at a maximum speed of 100; the others use
  only that the increment is not negative, which holds of the float as well.\<close>

definition produce :: "real \<Rightarrow> ProductionLine \<Rightarrow> ProductionLine" where
  "produce u l =
     (let l1 = l\<lparr>production_rate := u * max_speed (config l)\<rparr>
      in l1\<lparr>total_produced := total_produced l1 + py_int (production_rate l1 / 60)\<rparr>)"

text \<open>\<open>_simulate_production_cycle\<close>; \<open>r\<close> is the value of \<open>random.random()\<close>. When the
  method raises, the object it leaves behind is returned with the exception.\<close>

definition simulate_production_cycle ::
    "real \<Rightarrow> real \<Rightarrow> ProductionLine \<Rightarrow> (exn \<times> ProductionLine) + ProductionLine" where
  "simulate_production_cycle r u l =
     (if r < error_threshold (config l) then
        let l1 = l\<lparr>error_count := error_count l + 1\<rparr>
        in if error_count l1 > 5 then Inl (RuntimeError ''Too many errors'', l1)
           else Inr (produce u l1)
      else Inr (produce u l))"

definition perform_maintenance :: "world \<Rightarrow> world" where
  "perform_maintenance w =
     (let w1 = notify_observers (w\<lparr>line := (line w)\<lparr>state := MAINTENANCE\<rparr>\<rparr>)
      in notify_observers (w1\<lparr>line := (line w1)\<lparr>error_count := 0, state := RUNNING\<rparr>\<rparr>))"

text \<open>\<open>_update_metrics\<close>; \<open>now\<close> is the value of \<open>time.time()\<close>.\<close>

definition update_metrics :: "real \<Rightarrow> ProductionLine \<Rightarrow> ProductionLine" where
  "update_metrics now l =
     (let current_time = now - start_time l; h = metrics_history l
      in l\<lparr>metrics_history :=
             \<lparr>h_time = h_time h @ [current_time],
              h_production_rate = h_production_rate h @ [production_rate l],
              h_error_count = h_error_count h @ [error_count l],
              h_total_produced = h_total_produced h @ [total_produced l]\<rparr>\<rparr>)"

subsection \<open>The worker loop\<close>

text \<open>What one iteration of the loop of \<open>_run_production\<close> reads from outside: the two
  random draws of the cycle and the two readings of the clock (for \<open>uptime\<close> and in
  \<open>_update_metrics\<close>).\<close>

record cycle_env =
  draw_error :: real
  draw_rate :: real
  clock_uptime :: real
  clock_metrics :: real

text \<open>How a run of the loop is left: the loop condition was false (\<open>Exited\<close>), the
  \<open>except\<close> branch was taken (\<open>Faulted\<close>), or the iterations supplied were all executed and
  the loop is still going (\<open>Pending\<close>).\<close>

datatype outcome = Exited world | Faulted world | Pending world

fun outcome_world :: "outcome \<Rightarrow> world" where
  "outcome_world (Exited w) = w"
| "outcome_world (Faulted w) = w"
| "outcome_world (Pending w) = w"

fun halted :: "outcome \<Rightarrow> bool" where
  "halted (Exited w) = True"
| "halted (Faulted w) = True"
| "halted (Pending w) = False"

fun faulted :: "outcome \<Rightarrow> bool" where
  "faulted (Exited w) = False"
| "faulted (Faulted w) = True"
| "faulted (Pending w) = False"

text \<open>The body of the \<open>try\<close> block after a cycle that did not raise.\<close>

definition after_cycle :: "cycle_env \<Rightarrow> world \<Rightarrow> world" where
  "after_cycle e w =
     (let w1 = w\<lparr>line := (line w)\<lparr>uptime := clock_uptime e - start_time (line w)\<rparr>\<rparr>;
          w2 = (if uptime (line w1) \<ge> maintenance_interval (config (line w1))
                then perform_maintenance w1 else w1);
          w3 = w2\<lparr>line := update_metrics (clock_metrics e) (line w2)\<rparr>
      in notify_observers w3)"

fun run_production :: "cycle_env list \<Rightarrow> world \<Rightarrow> outcome" where
  "run_production [] w = (if running (line w) then Pending w else Exited w)"
| "run_production (e # es) w =
     (if \<not> running (line w) then Exited w
      else
        case simulate_production_cycle (draw_error e) (draw_rate e) (line w) of
          Inl (ex, l1) \<Rightarrow> Faulted (notify_observers (w\<lparr>line := l1\<lparr>state := ERROR\<rparr>\<rparr>))
        | Inr l1 \<Rightarrow> run_production es (after_cycle e (w\<lparr>line := l1\<rparr>)))"


subsection \<open>Observing the result of a call\<close>

text \<open>The object a call of \<open>_simulate_production_cycle\<close> leaves behind, and whether the
  call raised.\<close>

definition cycle_line :: "(exn \<times> ProductionLine) + ProductionLine \<Rightarrow> ProductionLine" where
  "cycle_line res = (case res of Inl (ex, l) \<Rightarrow> l | Inr l \<Rightarrow> l)"

definition raised :: "(exn \<times> ProductionLine) + ProductionLine \<Rightarrow> bool" where
  "raised res = (case res of Inl x \<Rightarrow> True | Inr l \<Rightarrow> False)"

text \<open>The condition of the \<open>if\<close> in the loop, in terms of the clock reading: the line's
  \<open>start_time\<close> and \<open>config\<close> are never assigned after construction.\<close>

definition maintenance_due :: "cycle_env \<Rightarrow> ProductionLine \<Rightarrow> bool" where
  "maintenance_due e l \<longleftrightarrow> clock_uptime e - start_time l \<ge> maintenance_interval (config l)"

text \<open>The number of entries under each of the four keys of \<open>metrics_history\<close>.\<close>

definition history_lengths :: "history \<Rightarrow> nat \<times> nat \<times> nat \<times> nat" where
  "history_lengths h =
     (length (h_time h), length (h_production_rate h), length (h_error_count h),
      length (h_total_produced h))"

section \<open>Sequences of calls\<close>

text \<open>A line with observers registered in the given order.\<close>

fun registered :: "observer list \<Rightarrow> world \<Rightarrow> world" where
  "registered [] w = w"
| "registered (ob # obs) w = registered obs (register_observer ob w)"

text \<open>The two commands of the control surface, issued one after the other with no worker
  cycle in between.\<close>

datatype command = Start | Stop

fun issue :: "command \<Rightarrow> world \<Rightarrow> world" where
  "issue Start w = start_production w"
| "issue Stop w = stop_production w"

fun issue_all :: "command list \<Rightarrow> world \<Rightarrow> world" where
  "issue_all [] w = w"
| "issue_all (c # cs) w = issue_all cs (issue c w)"

subsection \<open>Worker threads\<close>

text \<open>
  \<open>start_production\<close> starts a thread that runs \<open>_run_production\<close>, and the thread ends
  when its loop does; \<open>stop_production\<close> does not wait for it. The loop keeps nothing in
  local variables, so what a worker does next depends on the object alone. An execution
  is a sequence of events: a command from the controlling thread, or some worker that is
  still in its loop executing the iterations given (and leaving the loop when the run
  halts). Next to the object stands the number of workers that have left their loop;
  \<open>threads\<close> counts those started. An event of a worker is possible only while one is
  alive.
\<close>

datatype event = Command command | Iterations "cycle_env list"

fun step :: "event \<Rightarrow> world \<times> nat \<Rightarrow> (world \<times> nat) option" where
  "step (Command c) (w, ended) = Some (issue c w, ended)"
| "step (Iterations es) (w, ended) =
     (if threads w \<le> ended then None
      else Some (outcome_world (run_production es w),
                 if halted (run_production es w) then Suc ended else ended))"






subsection \<open>Operations in any order\<close>

text \<open>Every operation that touches a line, each with the random draws and clock readings it
  consumes. A cycle that raises leaves the object as the raise found it; a worker is a run
  of the loop over the iterations given.\<close>

datatype operation =
    Register observer
  | Control command
  | Cycle real real
  | Maintenance
  | UpdateMetrics real
  | Notify
  | Worker "cycle_env list"

fun apply_operation :: "operation \<Rightarrow> world \<Rightarrow> world" where
  "apply_operation (Register ob) w = register_observer ob w"
| "apply_operation (Control c) w = issue c w"
| "apply_operation (Cycle r u) w =
     w\<lparr>line := cycle_line (simulate_production_cycle r u (line w))\<rparr>"
| "apply_operation Maintenance w = perform_maintenance w"
| "apply_operation (UpdateMetrics now) w = w\<lparr>line := update_metrics now (line w)\<rparr>"
| "apply_operation Notify w = notify_observers w"
| "apply_operation (Worker es) w = outcome_world (run_production es w)"

fun apply_operations :: "operation list \<Rightarrow> world \<Rightarrow> world" where
  "apply_operations [] w = w"
| "apply_operations (x # xs) w = apply_operations xs (apply_operation x w)"

text \<open>\<open>random.uniform(0.8, 1.0)\<close> returns a value between its two bounds.\<close>

definition rate_in_range :: "real \<Rightarrow> bool" where
  "rate_in_range u \<longleftrightarrow> 8 / 10 \<le> u \<and> u \<le> 1"

fun rates_in_range :: "operation \<Rightarrow> bool" where
  "rates_in_range (Cycle r u) = rate_in_range u"
| "rates_in_range (Worker es) = list_all (\<lambda>e. rate_in_range (draw_rate e)) es"
| "rates_in_range x = True"

section \<open>Which accesses happen under the lock\<close>

text \<open>
  The methods are read a second time, for the order in which they acquire and release
  \<open>self._lock\<close> and read and assign the attributes of the object. A \<open>with self._lock\<close>
  block is an \<open>Acquire\<close> at its entry and a \<open>Release\<close> at each of its exits, a \<open>return\<close>
  or a \<open>raise\<close> inside it included. An \<open>append\<close> to a list of \<open>metrics_history\<close> reads
  the dictionary and writes it. An augmented assignment reads its target first.
\<close>

datatype field =
    F_config | F_state | F_production_rate | F_error_count | F_total_produced | F_uptime
  | F_start_time | F_observers | F_running | F_metrics_history

datatype access = Acquire | Release | Read field | Write field

text \<open>The attributes the lock is meant to guard.\<close>

fun protected :: "field \<Rightarrow> bool" where
  "protected F_state = True"
| "protected F_error_count = True"
| "protected F_total_produced = True"
| "protected F_production_rate = True"
| "protected F_metrics_history = True"
| "protected f = False"

text \<open>The accesses to guarded attributes that a trace makes while the lock is not held;
  \<open>held\<close> says whether the lock is held when the trace starts.\<close>

fun unguarded :: "bool \<Rightarrow> access list \<Rightarrow> access list" where
  "unguarded held [] = []"
| "unguarded held (Acquire # xs) = unguarded True xs"
| "unguarded held (Release # xs) = unguarded False xs"
| "unguarded held (Read f # xs) =
     (if protected f \<and> \<not> held then Read f # unguarded held xs else unguarded held xs)"
| "unguarded held (Write f # xs) =
     (if protected f \<and> \<not> held then Write f # unguarded held xs else unguarded held xs)"

fun lock_after :: "bool \<Rightarrow> access list \<Rightarrow> bool" where
  "lock_after held [] = held"
| "lock_after held (Acquire # xs) = lock_after True xs"
| "lock_after held (Release # xs) = lock_after False xs"
| "lock_after held (x # xs) = lock_after held xs"

text \<open>\<open>notify_observers\<close>: the four reads of the snapshot, the list of observers, and the
  state once for each observer.\<close>

definition notify_observers_trace :: "ProductionLine \<Rightarrow> access list" where
  "notify_observers_trace l =
     [Read F_production_rate, Read F_error_count, Read F_total_produced, Read F_uptime,
      Read F_observers] @ map (\<lambda>ob. Read F_state) (observers l)"

definition start_production_trace :: "ProductionLine \<Rightarrow> access list" where
  "start_production_trace l =
     [Acquire, Read F_state] @
     (if state l \<noteq> IDLE then [Release]
      else [Write F_state, Write F_running, Release] @
           notify_observers_trace (l\<lparr>state := RUNNING, running := True\<rparr>))"

definition stop_production_trace :: "ProductionLine \<Rightarrow> access list" where
  "stop_production_trace l =
     [Acquire, Read F_state] @
     (if state l \<noteq> RUNNING then [Release]
      else [Write F_running, Write F_state, Release] @
           notify_observers_trace (l\<lparr>running := False, state := IDLE\<rparr>))"

definition produce_trace :: "access list" where
  "produce_trace =
     [Read F_config, Write F_production_rate,
      Read F_total_produced, Read F_production_rate, Write F_total_produced]"

definition simulate_production_cycle_trace :: "real \<Rightarrow> ProductionLine \<Rightarrow> access list" where
  "simulate_production_cycle_trace r l =
     [Acquire, Read F_config] @
     (if r < error_threshold (config l) then
        [Read F_error_count, Write F_error_count, Read F_error_count] @
        (if error_count l + 1 > 5 then [Release] else produce_trace @ [Release])
      else produce_trace @ [Release])"

definition perform_maintenance_trace :: "ProductionLine \<Rightarrow> access list" where
  "perform_maintenance_trace l =
     [Acquire, Write F_state] @ notify_observers_trace (l\<lparr>state := MAINTENANCE\<rparr>) @
     [Write F_error_count, Write F_state] @
     notify_observers_trace (l\<lparr>error_count := 0, state := RUNNING\<rparr>) @ [Release]"

definition update_metrics_trace :: "access list" where
  "update_metrics_trace =
     [Read F_start_time,
      Read F_metrics_history, Write F_metrics_history,
      Read F_metrics_history, Read F_production_rate, Write F_metrics_history,
      Read F_metrics_history, Read F_error_count, Write F_metrics_history,
      Read F_metrics_history, Read F_total_produced, Write F_metrics_history]"

text \<open>One iteration of the loop of \<open>_run_production\<close>, the loop test included.\<close>

definition iteration_trace :: "cycle_env \<Rightarrow> ProductionLine \<Rightarrow> access list" where
  "iteration_trace e l =
     Read F_running #
     (if \<not> running l then []
      else
        simulate_production_cycle_trace (draw_error e) l @
        (case simulate_production_cycle (draw_error e) (draw_rate e) l of
           Inl (ex, l1) \<Rightarrow> Write F_state # notify_observers_trace (l1\<lparr>state := ERROR\<rparr>)
         | Inr l1 \<Rightarrow>
             [Read F_start_time, Write F_uptime, Read F_uptime, Read F_config] @
             (if maintenance_due e l1 then perform_maintenance_trace l1 else []) @
             update_metrics_trace @ notify_observers_trace l1))"

section \<open>Concrete runs\<close>

text \<open>Six iterations in which every draw is below an error threshold of 1, and ten in
  which no draw is below the default threshold; the clock advances by one second.\<close>

definition env6 :: "cycle_env list" where
  "env6 = map (\<lambda>k. \<lparr>draw_error = 1 / 2, draw_rate = 9 / 10,
                       clock_uptime = k, clock_metrics = k\<rparr>) [1, 2, 3, 4, 5, 6]"

definition env10 :: "cycle_env list" where
  "env10 = map (\<lambda>k. \<lparr>draw_error = 1 / 2, draw_rate = 1,
                        clock_uptime = k, clock_metrics = k\<rparr>) [1, 2, 3, 4, 5, 6, 7, 8, 9, 10]"

text \<open>A started line with one observer that has counted five errors, and an iteration
  whose draw is below the default threshold.\<close>

definition w5 :: world where
  "w5 = (let w = start_production (registered [0] (fresh load_config 0))
         in w\<lparr>line := (line w)\<lparr>error_count := 5\<rparr>\<rparr>)"

definition e_fault :: cycle_env where
  "e_fault = \<lparr>draw_error = 1 / 100, draw_rate = 9 / 10, clock_uptime = 7, clock_metrics = 7\<rparr>"




section \<open>Facts about the operations\<close>

subsection \<open>A single cycle\<close>

lemma py_int_nonneg: "0 \<le> x \<Longrightarrow> 0 \<le> py_int x"
  by (simp add: py_int_def)

lemma py_int_rate_100:
  assumes "8 / 10 \<le> u" "u \<le> 1"
  shows "py_int (u * 100 / 60) = 1"
proof -
  have "1 \<le> u * 100 / 60" "u * 100 / 60 < 2" using assms by simp_all
  then have "\<lfloor>u * 100 / 60\<rfloor> = 1" by linarith
  then show ?thesis using assms by (simp add: py_int_def)
qed

lemma cycle_Inl:
  "simulate_production_cycle r u l = Inl (ex, l1) \<longleftrightarrow>
     r < error_threshold (config l) \<and> 5 < error_count l + 1 \<and>
     ex = RuntimeError ''Too many errors'' \<and> l1 = l\<lparr>error_count := error_count l + 1\<rparr>"
  by (auto simp: simulate_production_cycle_def Let_def)


subsection \<open>Started lines\<close>

lemma state_registered [simp]: "state (line (registered obs w)) = state (line w)"
  by (induction obs arbitrary: w) (simp_all add: register_observer_def)

lemma state_issue:
  "state (line w) = IDLE \<or> state (line w) = RUNNING \<Longrightarrow>
   state (line (issue c w)) = IDLE \<or> state (line (issue c w)) = RUNNING"
  by (cases c) (auto simp: start_production_def stop_production_def notify_observers_def Let_def)

lemma state_issue_all:
  "state (line w) = IDLE \<or> state (line w) = RUNNING \<Longrightarrow>
   state (line (issue_all cs w)) = IDLE \<or> state (line (issue_all cs w)) = RUNNING"
proof (induction cs arbitrary: w)
  case Nil
  then show ?case by simp
next
  case (Cons c cs)
  from Cons.prems have "state (line (issue c w)) = IDLE \<or> state (line (issue c w)) = RUNNING"
    by (rule state_issue)
  then show ?case using Cons.IH by simp
qed

lemma registered_line:
  "line (registered obs w) = (line w)\<lparr>observers := observers (line w) @ obs\<rparr>"
  by (induction obs arbitrary: w) (simp_all add: register_observer_def)

lemma started_fresh [simp]:
  "running (line (start_production (registered obs (fresh cfg now))))"
  "state (line (start_production (registered obs (fresh cfg now)))) = RUNNING"
  "error_count (line (start_production (registered obs (fresh cfg now)))) = 0"
  "total_produced (line (start_production (registered obs (fresh cfg now)))) = 0"
  "config (line (start_production (registered obs (fresh cfg now)))) = cfg"
  "start_time (line (start_production (registered obs (fresh cfg now)))) = now"
  "metrics_history (line (start_production (registered obs (fresh cfg now)))) =
     \<lparr>h_time = [], h_production_rate = [], h_error_count = [], h_total_produced = []\<rparr>"
  by (simp_all add: start_production_def notify_observers_def Let_def registered_line
      fresh_def ProductionLine_init_def)

subsection \<open>What an iteration leaves unchanged\<close>

lemma after_cycle_frame [simp]:
  "running (line (after_cycle e w)) = running (line w)"
  "config (line (after_cycle e w)) = config (line w)"
  "start_time (line (after_cycle e w)) = start_time (line w)"
  "total_produced (line (after_cycle e w)) = total_produced (line w)"
  "observers (line (after_cycle e w)) = observers (line w)"
  by (simp_all add: after_cycle_def perform_maintenance_def update_metrics_def
      notify_observers_def Let_def)

lemma after_cycle_error_count:
  "error_count (line (after_cycle e w)) =
     (if maintenance_due e (line w) then 0 else error_count (line w))"
  by (simp add: after_cycle_def perform_maintenance_def update_metrics_def
      notify_observers_def maintenance_due_def Let_def)

lemma after_cycle_state:
  "state (line (after_cycle e w)) =
     (if maintenance_due e (line w) then RUNNING else state (line w))"
  by (simp add: after_cycle_def perform_maintenance_def update_metrics_def
      notify_observers_def maintenance_due_def Let_def)

lemma after_cycle_history:
  "history_lengths (metrics_history (line (after_cycle e w))) =
     (case history_lengths (metrics_history (line w)) of
        (a, b, c, d) \<Rightarrow> (Suc a, Suc b, Suc c, Suc d))"
  by (simp add: after_cycle_def perform_maintenance_def update_metrics_def
      notify_observers_def history_lengths_def Let_def)

lemma produce_frame [simp]:
  "config (produce u l) = config l"
  "error_count (produce u l) = error_count l"
  "running (produce u l) = running l"
  "start_time (produce u l) = start_time l"
  "state (produce u l) = state l"
  "metrics_history (produce u l) = metrics_history l"
  "observers (produce u l) = observers l"
  "total_produced (produce u l) = total_produced l + py_int (u * max_speed (config l) / 60)"
  by (simp_all add: produce_def Let_def)

lemma cycle_line_config [simp]:
  "config (cycle_line (simulate_production_cycle r u l)) = config l"
  by (simp add: cycle_line_def simulate_production_cycle_def Let_def)

subsection \<open>Runs of the worker loop\<close>

lemma forced_errors_fault:
  assumes "running (line w)" and "error_count (line w) \<le> 5"
    and "length es = nat (6 - error_count (line w))"
    and "\<forall>e\<in>set es. draw_error e < error_threshold (config (line w)) \<and>
           \<not> maintenance_due e (line w)"
  shows "faulted (run_production (es @ rest) w) \<and>
    state (line (outcome_world (run_production (es @ rest) w))) = ERROR \<and>
    error_count (line (outcome_world (run_production (es @ rest) w))) = 6 \<and>
    history_lengths (metrics_history (line (outcome_world (run_production (es @ rest) w)))) =
      (case history_lengths (metrics_history (line w)) of
         (a, b, c, d) \<Rightarrow> (a + length es - 1, b + length es - 1, c + length es - 1,
                          d + length es - 1))"
  using assms
proof (induction es arbitrary: w)
  case Nil
  then show ?case by simp
next
  case (Cons e es)
  let ?l = "line w"
  from Cons.prems have trig: "draw_error e < error_threshold (config ?l)"
    and nomaint: "\<not> maintenance_due e ?l" by simp_all
  show ?case
  proof (cases "error_count ?l = 5")
    case True
    with Cons.prems have "es = []" by simp
    moreover have "simulate_production_cycle (draw_error e) (draw_rate e) ?l =
        Inl (RuntimeError ''Too many errors'', ?l\<lparr>error_count := 6\<rparr>)"
      using trig True by (simp add: simulate_production_cycle_def Let_def)
    ultimately show ?thesis using Cons.prems(1)
      by (simp add: notify_observers_def split: prod.split)
  next
    case False
    with Cons.prems have small: "error_count ?l + 1 \<le> 5" by simp
    define l1 where "l1 = produce (draw_rate e) (?l\<lparr>error_count := error_count ?l + 1\<rparr>)"
    define w1 where "w1 = after_cycle e (w\<lparr>line := l1\<rparr>)"
    have cyc: "simulate_production_cycle (draw_error e) (draw_rate e) ?l = Inr l1"
      using trig small by (simp add: simulate_production_cycle_def Let_def l1_def)
    have step: "run_production ((e # es) @ rest) w = run_production (es @ rest) w1"
      using Cons.prems(1) cyc by (simp add: w1_def)
    have nm1: "\<not> maintenance_due e l1"
      using nomaint by (simp add: maintenance_due_def l1_def)
    have ec1: "error_count (line w1) = error_count ?l + 1"
      using nm1 by (simp add: w1_def after_cycle_error_count l1_def)
    have cfg1: "config (line w1) = config ?l" and st1: "start_time (line w1) = start_time ?l"
      by (simp_all add: w1_def l1_def)
    have h1: "history_lengths (metrics_history (line w1)) =
        (case history_lengths (metrics_history ?l) of
           (a, b, c, d) \<Rightarrow> (Suc a, Suc b, Suc c, Suc d))"
      by (simp add: w1_def after_cycle_history l1_def)
    from Cons.prems(3) have suc: "Suc (length es) = nat (6 - error_count ?l)" by simp
    have len: "length es = nat (6 - error_count (line w1))"
      using suc small unfolding ec1 by linarith
    have pos: "0 < length es"
      using suc small by linarith
    have "running (line w1)" using Cons.prems(1) by (simp add: w1_def l1_def)
    moreover have "error_count (line w1) \<le> 5" using small by (simp add: ec1)
    moreover have "\<forall>e\<in>set es. draw_error e < error_threshold (config (line w1)) \<and>
           \<not> maintenance_due e (line w1)"
      using Cons.prems(4) by (simp add: cfg1 st1 maintenance_due_def)
    ultimately have IH: "faulted (run_production (es @ rest) w1) \<and>
      state (line (outcome_world (run_production (es @ rest) w1))) = ERROR \<and>
      error_count (line (outcome_world (run_production (es @ rest) w1))) = 6 \<and>
      history_lengths (metrics_history (line (outcome_world (run_production (es @ rest) w1)))) =
        (case history_lengths (metrics_history (line w1)) of
           (a, b, c, d) \<Rightarrow> (a + length es - 1, b + length es - 1, c + length es - 1,
                            d + length es - 1))"
      using len by (intro Cons.IH) simp_all
    show ?thesis
      unfolding step using IH pos by (simp add: h1 split: prod.split)
  qed
qed

lemma error_free_run:
  assumes "running (line w)" and "max_speed (config (line w)) = 100"
    and "error_count (line w) = 0"
    and "\<forall>e\<in>set es. \<not> draw_error e < error_threshold (config (line w)) \<and>
           8 / 10 \<le> draw_rate e \<and> draw_rate e \<le> 1"
  shows "\<not> halted (run_production es w) \<and>
    total_produced (line (outcome_world (run_production es w))) =
      total_produced (line w) + int (length es) \<and>
    error_count (line (outcome_world (run_production es w))) = 0"
  using assms
proof (induction es arbitrary: w)
  case Nil
  then show ?case by simp
next
  case (Cons e es)
  let ?l = "line w"
  define l1 where "l1 = produce (draw_rate e) ?l"
  define w1 where "w1 = after_cycle e (w\<lparr>line := l1\<rparr>)"
  from Cons.prems(4) have quiet: "\<not> draw_error e < error_threshold (config ?l)"
    and rate: "8 / 10 \<le> draw_rate e" "draw_rate e \<le> 1" by simp_all
  have cyc: "simulate_production_cycle (draw_error e) (draw_rate e) ?l = Inr l1"
    using quiet by (simp add: simulate_production_cycle_def l1_def)
  have step: "run_production (e # es) w = run_production es w1"
    using Cons.prems(1) cyc by (simp add: w1_def)
  have tp1: "total_produced (line w1) = total_produced ?l + 1"
    using py_int_rate_100 [OF rate] Cons.prems(2) by (simp add: w1_def l1_def)
  have ec1: "error_count (line w1) = 0"
    using Cons.prems(3) by (simp add: w1_def l1_def after_cycle_error_count)
  have cfg1: "config (line w1) = config ?l" by (simp add: w1_def l1_def)
  have "running (line w1)" using Cons.prems(1) by (simp add: w1_def l1_def)
  moreover have "max_speed (config (line w1)) = 100" using Cons.prems(2) by (simp add: cfg1)
  moreover have "\<forall>e\<in>set es. \<not> draw_error e < error_threshold (config (line w1)) \<and>
           8 / 10 \<le> draw_rate e \<and> draw_rate e \<le> 1"
    using Cons.prems(4) by (simp add: cfg1)
  ultimately have "\<not> halted (run_production es w1) \<and>
    total_produced (line (outcome_world (run_production es w1))) =
      total_produced (line w1) + int (length es) \<and>
    error_count (line (outcome_world (run_production es w1))) = 0"
    using ec1 by (intro Cons.IH)
  then show ?case unfolding step by (simp add: tp1)
qed

lemma cycle_line_total:
  assumes "0 \<le> max_speed (config l)" and "rate_in_range u"
  shows "total_produced l \<le> total_produced (cycle_line (simulate_production_cycle r u l))"
proof -
  have "0 \<le> u * max_speed (config l) / 60"
    using assms by (simp add: rate_in_range_def)
  then have "0 \<le> py_int (u * max_speed (config l) / 60)" by (rule py_int_nonneg)
  then show ?thesis
    by (simp add: cycle_line_def simulate_production_cycle_def Let_def)
qed

lemma run_production_config [simp]:
  "config (line (outcome_world (run_production es w))) = config (line w)"
proof (induction es arbitrary: w)
  case Nil
  then show ?case by simp
next
  case (Cons e es)
  show ?case
  proof (cases "simulate_production_cycle (draw_error e) (draw_rate e) (line w)")
    case (Inl p)
    then obtain ex l1 where p: "p = (ex, l1)" by (cases p)
    have "config l1 = config (line w)"
      using Inl p cycle_line_config [of "draw_error e" "draw_rate e" "line w"]
      by (simp add: cycle_line_def)
    then show ?thesis using Inl p by (simp add: notify_observers_def)
  next
    case (Inr l1)
    have "config l1 = config (line w)"
      using Inr cycle_line_config [of "draw_error e" "draw_rate e" "line w"]
      by (simp add: cycle_line_def)
    then show ?thesis using Inr Cons.IH [of "after_cycle e (w\<lparr>line := l1\<rparr>)"] by simp
  qed
qed

lemma run_production_total:
  assumes "0 \<le> max_speed (config (line w))"
    and "list_all (\<lambda>e. rate_in_range (draw_rate e)) es"
  shows "total_produced (line w) \<le> total_produced (line (outcome_world (run_production es w)))"
  using assms
proof (induction es arbitrary: w)
  case Nil
  then show ?case by simp
next
  case (Cons e es)
  from Cons.prems have ok: "rate_in_range (draw_rate e)"
    and rest: "list_all (\<lambda>e. rate_in_range (draw_rate e)) es" by simp_all
  have mono: "total_produced (line w) \<le>
      total_produced (cycle_line (simulate_production_cycle (draw_error e) (draw_rate e) (line w)))"
    using Cons.prems(1) ok by (rule cycle_line_total)
  show ?case
  proof (cases "simulate_production_cycle (draw_error e) (draw_rate e) (line w)")
    case (Inl p)
    then obtain ex l1 where p: "p = (ex, l1)" by (cases p)
    show ?thesis using Inl p mono by (simp add: cycle_line_def notify_observers_def)
  next
    case (Inr l1)
    let ?w1 = "after_cycle e (w\<lparr>line := l1\<rparr>)"
    have c1: "config l1 = config (line w)"
      using Inr cycle_line_config [of "draw_error e" "draw_rate e" "line w"]
      by (simp add: cycle_line_def)
    have "total_produced (line ?w1) \<le>
        total_produced (line (outcome_world (run_production es ?w1)))"
      using Cons.prems(1) rest by (intro Cons.IH) (simp_all add: c1)
    moreover have "total_produced (line w) \<le> total_produced (line ?w1)"
      using Inr mono by (simp add: cycle_line_def)
    ultimately show ?thesis using Inr by simp
  qed
qed

lemma apply_operation_config [simp]:
  "config (line (apply_operation x w)) = config (line w)"
proof (cases x)
  case (Control c)
  then show ?thesis
    by (cases c) (simp_all add: start_production_def stop_production_def notify_observers_def Let_def)
qed (simp_all add: register_observer_def perform_maintenance_def notify_observers_def
    update_metrics_def Let_def)

lemma apply_operation_total:
  assumes "0 \<le> max_speed (config (line w))" and "rates_in_range x"
  shows "total_produced (line w) \<le> total_produced (line (apply_operation x w))"
proof (cases x)
  case (Control c)
  then show ?thesis
    by (cases c) (simp_all add: start_production_def stop_production_def notify_observers_def Let_def)
next
  case (Cycle r u)
  then show ?thesis using assms cycle_line_total [of "line w" u r] by simp
next
  case (Worker es)
  then show ?thesis using assms run_production_total [of w es] by simp
qed (simp_all add: register_observer_def perform_maintenance_def notify_observers_def
    update_metrics_def Let_def)

lemma apply_operations_config [simp]:
  "config (line (apply_operations xs w)) = config (line w)"
  by (induction xs arbitrary: w) simp_all

lemma apply_operations_append:
  "apply_operations (xs @ ys) w = apply_operations ys (apply_operations xs w)"
  by (induction xs arbitrary: w) simp_all

lemma apply_operations_total:
  assumes "0 \<le> max_speed (config (line w))" and "list_all rates_in_range xs"
  shows "total_produced (line w) \<le> total_produced (line (apply_operations xs w))"
  using assms
proof (induction xs arbitrary: w)
  case Nil
  then show ?case by simp
next
  case (Cons x xs)
  have "total_produced (line w) \<le> total_produced (line (apply_operation x w))"
    using Cons.prems by (intro apply_operation_total) simp_all
  also have "\<dots> \<le> total_produced (line (apply_operations xs (apply_operation x w)))"
    using Cons.prems by (intro Cons.IH) simp_all
  finally show ?case by simp
qed


lemma w5_facts:
  "running (line w5)"
  "simulate_production_cycle (draw_error e_fault) (draw_rate e_fault) (line w5) =
     Inl (RuntimeError ''Too many errors'', (line w5)\<lparr>error_count := 6\<rparr>)"
  by (simp_all add: w5_def e_fault_def simulate_production_cycle_def load_config_def Let_def
      start_production_def notify_observers_def register_observer_def
      fresh_def ProductionLine_init_def)

subsection \<open>Executions with worker threads\<close>

lemma run_production_threads [simp]:
  "threads (outcome_world (run_production es w)) = threads w"
proof (induction es arbitrary: w)
  case Nil
  then show ?case by simp
next
  case (Cons e es)
  have after: "\<And>v. threads (after_cycle e v) = threads v"
    by (simp add: after_cycle_def perform_maintenance_def notify_observers_def Let_def)
  show ?case
  proof (cases "simulate_production_cycle (draw_error e) (draw_rate e) (line w)")
    case (Inl p)
    then show ?thesis by (cases p) (simp add: notify_observers_def)
  next
    case (Inr l1)
    then show ?thesis using Cons.IH [of "after_cycle e (w\<lparr>line := l1\<rparr>)"] by (simp add: after)
  qed
qed



lemma issue_error_count [simp]: "error_count (line (issue c w)) = error_count (line w)"
  by (cases c) (simp_all add: start_production_def stop_production_def notify_observers_def Let_def)







subsection \<open>Traces\<close>

lemma unguarded_append:
  "unguarded held (xs @ ys) = unguarded held xs @ unguarded (lock_after held xs) ys"
  by (induction held xs rule: unguarded.induct) simp_all

lemma lock_after_append:
  "lock_after held (xs @ ys) = lock_after (lock_after held xs) ys"
  by (induction held xs rule: lock_after.induct) simp_all

lemma unguarded_reads_state:
  "unguarded held (map (\<lambda>ob. Read F_state) obs) =
     (if held then [] else map (\<lambda>ob. Read F_state) obs)"
  by (induction obs) auto

lemma lock_after_reads_state [simp]:
  "lock_after held (map (\<lambda>ob. Read F_state) obs) = held"
  by (induction obs) simp_all

lemma unguarded_notify:
  "unguarded held (notify_observers_trace l) =
     (if held then []
      else [Read F_production_rate, Read F_error_count, Read F_total_produced] @
           map (\<lambda>ob. Read F_state) (observers l))"
  by (simp add: notify_observers_trace_def unguarded_reads_state)

lemma lock_after_notify [simp]: "lock_after held (notify_observers_trace l) = held"
  by (simp add: notify_observers_trace_def)

section \<open>The claims\<close>

subsection \<open>A cycle in which the error trigger fires\<close>

text \<open>
  C1, as the code has it. With the maximum speed of 100 that the code configures and a
  rate draw in the range of \<open>random.uniform(0.8, 1.0)\<close>, a call in which the error
  trigger fires and the fatal fault is not raised does contribute production: after it
  \<open>error_count\<close> is one higher and \<open>total_produced\<close> is one higher than before.
\<close>

theorem error_cycle_still_produces:
  assumes "r < error_threshold (config l)"
    and "\<not> raised (simulate_production_cycle r u l)"
    and "max_speed (config l) = 100" and "rate_in_range u"
  shows "error_count (cycle_line (simulate_production_cycle r u l)) = error_count l + 1 \<and>
    total_produced (cycle_line (simulate_production_cycle r u l)) = total_produced l + 1"
proof -
  from assms(1,2) have small: "\<not> 5 < error_count l + 1"
    by (simp add: simulate_production_cycle_def raised_def Let_def split: if_splits)
  from assms(4) have "py_int (u * 100 / 60) = 1"
    by (intro py_int_rate_100) (simp_all add: rate_in_range_def)
  then show ?thesis
    using assms(1,3) small
    by (simp add: simulate_production_cycle_def cycle_line_def Let_def)
qed

text \<open>A draw of 0 on a new line with the default configuration.\<close>

theorem error_cycle_still_produces_witness:
  "(0::real) < error_threshold (config (ProductionLine_init load_config 0)) \<and>
   \<not> raised (simulate_production_cycle 0 (4 / 5) (ProductionLine_init load_config 0)) \<and>
   max_speed (config (ProductionLine_init load_config 0)) = 100 \<and>
   rate_in_range (4 / 5) \<and>
   error_count (cycle_line (simulate_production_cycle 0 (4 / 5) (ProductionLine_init load_config 0))) =
     error_count (ProductionLine_init load_config 0) + 1 \<and>
   total_produced (cycle_line (simulate_production_cycle 0 (4 / 5) (ProductionLine_init load_config 0))) =
     total_produced (ProductionLine_init load_config 0) + 1"
proof -
  have h1: "(0::real) < error_threshold (config (ProductionLine_init load_config 0))"
    by (simp add: ProductionLine_init_def load_config_def)
  have h2: "\<not> raised (simulate_production_cycle 0 (4 / 5) (ProductionLine_init load_config 0))"
    by (simp add: simulate_production_cycle_def raised_def ProductionLine_init_def
        load_config_def Let_def)
  have h3: "max_speed (config (ProductionLine_init load_config 0)) = 100"
    by (simp add: ProductionLine_init_def load_config_def)
  have h4: "rate_in_range (4 / 5)"
    by (simp add: rate_in_range_def)
  from error_cycle_still_produces [OF h1 h2 h3 h4] h1 h2 h3 h4 show ?thesis by blast
qed

text \<open>On a new line with the default configuration, a draw of 0 is below the threshold
  0.05, the cycle does not raise, and \<open>total_produced\<close> goes from 0 to 1.\<close>

theorem error_cycle_no_production_counterexample:
  "(0::real) < error_threshold (config (ProductionLine_init load_config 0)) \<and>
   \<not> raised (simulate_production_cycle 0 (4 / 5) (ProductionLine_init load_config 0)) \<and>
   total_produced (ProductionLine_init load_config 0) = 0 \<and>
   total_produced (cycle_line (simulate_production_cycle 0 (4 / 5) (ProductionLine_init load_config 0))) = 1"
  by (simp add: simulate_production_cycle_def produce_def Let_def raised_def cycle_line_def
      ProductionLine_init_def load_config_def py_int_def)

subsection \<open>Start and stop\<close>

text \<open>
  C2. After any sequence of \<open>start_production()\<close> and \<open>stop_production()\<close> calls on a
  new line (with any observers registered), the state is \<open>IDLE\<close> or \<open>RUNNING\<close>, and
  the next call follows the table: \<open>start_production()\<close> sets the state to \<open>RUNNING\<close>
  (and \<open>_running\<close> to true, touching no other field) when the state is \<open>IDLE\<close> and
  changes nothing at all otherwise; \<open>stop_production()\<close> sets the state to \<open>IDLE\<close>
  (and \<open>_running\<close> to false) when the state is \<open>RUNNING\<close> and changes nothing at all
  otherwise.
\<close>

theorem start_stop_table:
  fixes cs :: "command list" and obs :: "observer list"
    and cfg :: Configuration and now :: real
  defines "w \<equiv> issue_all cs (registered obs (fresh cfg now))"
  shows "(state (line w) = IDLE \<or> state (line w) = RUNNING) \<and>
    (state (line w) = IDLE \<longrightarrow>
       line (start_production w) = (line w)\<lparr>state := RUNNING, running := True\<rparr>) \<and>
    (state (line w) \<noteq> IDLE \<longrightarrow> start_production w = w) \<and>
    (state (line w) = RUNNING \<longrightarrow>
       line (stop_production w) = (line w)\<lparr>running := False, state := IDLE\<rparr>) \<and>
    (state (line w) \<noteq> RUNNING \<longrightarrow> stop_production w = w)"
proof -
  have "state (line (registered obs (fresh cfg now))) = IDLE"
    by (simp add: fresh_def ProductionLine_init_def)
  then have "state (line w) = IDLE \<or> state (line w) = RUNNING"
    unfolding w_def by (intro state_issue_all) simp
  then show ?thesis
    by (simp add: start_production_def stop_production_def notify_observers_def Let_def)
qed

text \<open>A second start is rejected and a stop then succeeds; a second stop is rejected
  and a start then succeeds.\<close>

theorem start_stop_table_witness:
  "state (line (issue_all [Start, Start] (registered [0] (fresh load_config 0)))) = RUNNING \<and>
   start_production (issue_all [Start, Start] (registered [0] (fresh load_config 0))) =
     issue_all [Start, Start] (registered [0] (fresh load_config 0)) \<and>
   state (line (stop_production (issue_all [Start, Start] (registered [0] (fresh load_config 0))))) = IDLE \<and>
   state (line (issue_all [Start, Stop, Stop] (registered [0] (fresh load_config 0)))) = IDLE \<and>
   stop_production (issue_all [Start, Stop, Stop] (registered [0] (fresh load_config 0))) =
     issue_all [Start, Stop, Stop] (registered [0] (fresh load_config 0)) \<and>
   state (line (start_production (issue_all [Start, Stop, Stop] (registered [0] (fresh load_config 0))))) = RUNNING"
  using start_stop_table [of "[Start, Start]" "[0]" load_config 0]
    start_stop_table [of "[Start, Stop, Stop]" "[0]" load_config 0]
  by (simp add: start_production_def stop_production_def notify_observers_def Let_def
      fresh_def ProductionLine_init_def register_observer_def)

subsection \<open>The fatal fault\<close>

text \<open>
  C3. When the cycle of an iteration raises (which it does only with a count above 5),
  the loop ends in its \<open>except\<close> branch whatever iterations would have followed: the
  state is \<open>ERROR\<close>, every observer has received exactly one more call, carrying the
  state \<open>ERROR\<close>, and nothing else but the error count has changed.
\<close>

theorem fatal_fault_halts_worker:
  assumes "running (line w)"
    and "simulate_production_cycle (draw_error e) (draw_rate e) (line w) = Inl (ex, l1)"
  shows "5 < error_count l1 \<and>
    run_production (e # es) w =
      Faulted (w\<lparr>line := (line w)\<lparr>error_count := error_count (line w) + 1, state := ERROR\<rparr>,
                 updates := updates w @
                   map (\<lambda>ob. (ob, ERROR,
                          snapshot ((line w)\<lparr>error_count := error_count (line w) + 1\<rparr>)))
                     (observers (line w))\<rparr>) \<and>
    halted (run_production (e # es) w)"
proof -
  from assms(2) have l1: "l1 = (line w)\<lparr>error_count := error_count (line w) + 1\<rparr>"
    and big: "5 < error_count (line w) + 1"
    by (simp_all add: cycle_Inl)
  have run: "run_production (e # es) w = Faulted (notify_observers (w\<lparr>line := l1\<lparr>state := ERROR\<rparr>\<rparr>))"
    using assms by simp
  show ?thesis
    using big unfolding run l1 by (simp add: notify_observers_def snapshot_def)
qed

text \<open>A line that has counted five errors faults on the next error, with ten more
  iterations waiting.\<close>

theorem fatal_fault_halts_worker_witness:
  "running (line w5) \<and>
   simulate_production_cycle (draw_error e_fault) (draw_rate e_fault) (line w5) =
     Inl (RuntimeError ''Too many errors'', (line w5)\<lparr>error_count := 6\<rparr>) \<and>
   5 < error_count ((line w5)\<lparr>error_count := 6\<rparr>) \<and>
   run_production (e_fault # env10) w5 =
     Faulted (w5\<lparr>line := (line w5)\<lparr>error_count := error_count (line w5) + 1, state := ERROR\<rparr>,
       updates := updates w5 @
         map (\<lambda>ob. (ob, ERROR, snapshot ((line w5)\<lparr>error_count := error_count (line w5) + 1\<rparr>)))
           (observers (line w5))\<rparr>) \<and>
   halted (run_production (e_fault # env10) w5)"
  using w5_facts fatal_fault_halts_worker [OF w5_facts, of env10] by blast

subsection \<open>Every cycle in error\<close>

text \<open>
  C4, as the code has it. On a new, started line whose error threshold is 1, with every
  draw below 1 and the uptime below the maintenance interval, the sixth cycle raises: the
  loop ends with the state \<open>ERROR\<close> and an error count of 6, whatever iterations would
  have followed, and \<open>metrics_history\<close> holds exactly 5 entries under each key, one for
  each of the five cycles that completed; the cycle that raises appends none.
\<close>

theorem forced_errors_history:
  assumes "error_threshold cfg = 1" and "length es = 6"
    and "\<forall>e\<in>set es. draw_error e < 1 \<and> clock_uptime e - now < maintenance_interval cfg"
  shows "faulted (run_production (es @ rest) (start_production (registered obs (fresh cfg now)))) \<and>
    state (line (outcome_world
      (run_production (es @ rest) (start_production (registered obs (fresh cfg now)))))) = ERROR \<and>
    error_count (line (outcome_world
      (run_production (es @ rest) (start_production (registered obs (fresh cfg now)))))) = 6 \<and>
    history_lengths (metrics_history (line (outcome_world
      (run_production (es @ rest) (start_production (registered obs (fresh cfg now))))))) =
      (5, 5, 5, 5)"
proof -
  let ?w = "start_production (registered obs (fresh cfg now))"
  have "\<forall>e\<in>set es. draw_error e < error_threshold (config (line ?w)) \<and>
      \<not> maintenance_due e (line ?w)"
    using assms(1,3) by (auto simp: maintenance_due_def)
  then have "faulted (run_production (es @ rest) ?w) \<and>
    state (line (outcome_world (run_production (es @ rest) ?w))) = ERROR \<and>
    error_count (line (outcome_world (run_production (es @ rest) ?w))) = 6 \<and>
    history_lengths (metrics_history (line (outcome_world (run_production (es @ rest) ?w)))) =
      (case history_lengths (metrics_history (line ?w)) of
         (a, b, c, d) \<Rightarrow> (a + length es - 1, b + length es - 1, c + length es - 1,
                          d + length es - 1))"
    using assms(2) by (intro forced_errors_fault) simp_all
  then show ?thesis using assms(2) by (simp add: history_lengths_def)
qed

text \<open>Six such iterations on a line with one observer and the threshold set to 1.\<close>

theorem forced_errors_history_witness:
  "faulted (run_production (env6 @ []) (start_production (registered [0] (fresh (load_config\<lparr>error_threshold := 1\<rparr>) 0)))) \<and>
   history_lengths (metrics_history (line (outcome_world
      (run_production (env6 @ []) (start_production (registered [0] (fresh (load_config\<lparr>error_threshold := 1\<rparr>) 0))))))) =
      (5, 5, 5, 5)"
  using forced_errors_history [of "load_config\<lparr>error_threshold := 1\<rparr>" env6 0 "[]" "[0]"]
  by (simp add: env6_def load_config_def)

text \<open>Six iterations with the threshold at 1: the line is in \<open>ERROR\<close> and the history
  has 5 entries, not 6.\<close>

theorem six_entries_counterexample:
  "state (line (outcome_world (run_production env6
      (start_production (fresh (load_config\<lparr>error_threshold := 1\<rparr>) 0))))) = ERROR \<and>
   length (h_time (metrics_history (line (outcome_world (run_production env6
      (start_production (fresh (load_config\<lparr>error_threshold := 1\<rparr>) 0))))))) = 5 \<and>
   length (h_time (metrics_history (line (outcome_world (run_production env6
      (start_production (fresh (load_config\<lparr>error_threshold := 1\<rparr>) 0))))))) \<noteq> 6"
  by (simp add: env6_def load_config_def fresh_def ProductionLine_init_def start_production_def
      notify_observers_def simulate_production_cycle_def produce_def after_cycle_def
      update_metrics_def Let_def)

subsection \<open>Ten cycles without error\<close>

text \<open>
  C5, as the code has it. On a new, started line with \<open>max_speed\<close> 100, after ten
  iterations in none of which the error trigger fires and whose rate draws lie between
  0.8 and 1.0, the loop is still going, \<open>error_count\<close> is 0 and \<open>total_produced\<close> is
  exactly 10: every rate lies between 80 and 100, so every cycle contributes
  \<open>int(rate / 60) = 1\<close>.
\<close>

theorem ten_error_free_cycles:
  assumes "max_speed cfg = 100" and "length es = 10"
    and "\<forall>e\<in>set es. \<not> draw_error e < error_threshold cfg \<and>
           8 / 10 \<le> draw_rate e \<and> draw_rate e \<le> 1"
  shows "\<not> halted (run_production es (start_production (registered obs (fresh cfg now)))) \<and>
    total_produced (line (outcome_world
      (run_production es (start_production (registered obs (fresh cfg now)))))) = 10 \<and>
    error_count (line (outcome_world
      (run_production es (start_production (registered obs (fresh cfg now)))))) = 0"
proof -
  let ?w = "start_production (registered obs (fresh cfg now))"
  have "\<forall>e\<in>set es. \<not> draw_error e < error_threshold (config (line ?w)) \<and>
           8 / 10 \<le> draw_rate e \<and> draw_rate e \<le> 1"
    using assms(3) by simp
  then have "\<not> halted (run_production es ?w) \<and>
    total_produced (line (outcome_world (run_production es ?w))) =
      total_produced (line ?w) + int (length es) \<and>
    error_count (line (outcome_world (run_production es ?w))) = 0"
    using assms(1) by (intro error_free_run) simp_all
  then show ?thesis using assms(2) by simp
qed

text \<open>Ten such iterations on a line with two observers and the default configuration.\<close>

theorem ten_error_free_cycles_witness:
  "\<not> halted (run_production env10 (start_production (registered [0, 1] (fresh load_config 0)))) \<and>
    total_produced (line (outcome_world
      (run_production env10 (start_production (registered [0, 1] (fresh load_config 0)))))) = 10 \<and>
    error_count (line (outcome_world
      (run_production env10 (start_production (registered [0, 1] (fresh load_config 0)))))) = 0"
  using ten_error_free_cycles [of load_config env10 "[0, 1]" 0]
  by (simp add: env10_def load_config_def)

text \<open>Ten cycles at the highest rate, 100: the total is 10, which is not between 13 and
  16.\<close>

theorem thirteen_to_sixteen_counterexample:
  "total_produced (line (outcome_world
      (run_production env10 (start_production (fresh load_config 0))))) = 10 \<and>
   \<not> (13 \<le> total_produced (line (outcome_world
      (run_production env10 (start_production (fresh load_config 0))))) \<and>
      total_produced (line (outcome_world
      (run_production env10 (start_production (fresh load_config 0))))) \<le> 16)"
  by (simp add: env10_def load_config_def fresh_def ProductionLine_init_def start_production_def
      notify_observers_def simulate_production_cycle_def produce_def after_cycle_def
      update_metrics_def py_int_def Let_def)

subsection \<open>Maintenance\<close>

text \<open>
  C6. When \<open>_perform_maintenance\<close> has run, \<open>error_count\<close> is 0 and \<open>state\<close> is
  \<open>RUNNING\<close>, whatever they were before; the routine changes no other field of the line
  and makes two passes over the observers.
\<close>

theorem perform_maintenance_resets:
  "error_count (line (perform_maintenance w)) = 0 \<and>
   state (line (perform_maintenance w)) = RUNNING \<and>
   line (perform_maintenance w) = (line w)\<lparr>error_count := 0, state := RUNNING\<rparr> \<and>
   length (updates (perform_maintenance w)) =
     length (updates w) + 2 * length (observers (line w))"
  by (simp add: perform_maintenance_def notify_observers_def Let_def)

subsection \<open>Cumulative output\<close>

text \<open>
  C7. Along any sequence of operations (registering an observer, start, stop, a
  production cycle whether or not it raises, maintenance, a metrics update, a
  notification, a run of the worker loop), \<open>total_produced\<close> never decreases: its value
  after any prefix of the sequence is at most its value after the whole sequence. The
  maximum speed is not negative (it is 100 in \<open>_load_config\<close>) and the rate draws lie in
  the range of \<open>random.uniform(0.8, 1.0)\<close>.
\<close>

theorem total_produced_monotone:
  assumes "0 \<le> max_speed (config (line w))"
    and "list_all rates_in_range (before @ later)"
  shows "total_produced (line (apply_operations before w)) \<le>
    total_produced (line (apply_operations (before @ later) w))"
  unfolding apply_operations_append
  using assms by (intro apply_operations_total) simp_all

text \<open>A cycle in error, then maintenance, a run of ten iterations, a stop and a
  notification, on a started line with the default configuration.\<close>

theorem total_produced_monotone_witness:
  "0 \<le> max_speed (config (line (start_production (registered [0] (fresh load_config 0))))) \<and>
   list_all rates_in_range ([Cycle 0 1] @ [Maintenance, Worker env10, Control Stop, Notify]) \<and>
   total_produced (line (apply_operations [Cycle 0 1]
      (start_production (registered [0] (fresh load_config 0))))) \<le>
   total_produced (line (apply_operations ([Cycle 0 1] @ [Maintenance, Worker env10, Control Stop, Notify])
      (start_production (registered [0] (fresh load_config 0)))))"
proof -
  have h1: "0 \<le> max_speed (config (line (start_production (registered [0] (fresh load_config 0)))))"
    unfolding started_fresh by (simp add: load_config_def)
  have h2: "list_all rates_in_range
      ([Cycle 0 1] @ [Maintenance, Worker env10, Control Stop, Notify])"
    by (simp add: env10_def rate_in_range_def)
  from total_produced_monotone [OF h1 h2] h1 h2 show ?thesis by (intro conjI)
qed

subsection \<open>The lock\<close>

text \<open>
  C8, as the code has it. \<open>_simulate_production_cycle\<close> and \<open>_perform_maintenance\<close> make
  every access to \<open>state\<close>, \<open>error_count\<close>, \<open>total_produced\<close> and \<open>production_rate\<close>
  while the lock is held, the snapshots of the two notifications of the maintenance
  routine included. \<open>start_production\<close> and \<open>stop_production\<close> test and assign \<open>state\<close>
  while the lock is held; \<open>notify_observers\<close> never acquires the lock, and the snapshot it
  builds for them is read after the lock has been released.
\<close>

theorem lock_discipline:
  "unguarded False (simulate_production_cycle_trace r l) = [] \<and>
   unguarded False (perform_maintenance_trace l) = [] \<and>
   unguarded False (start_production_trace l) =
     (if state l = IDLE
      then unguarded False (notify_observers_trace (l\<lparr>state := RUNNING, running := True\<rparr>))
      else []) \<and>
   unguarded False (stop_production_trace l) =
     (if state l = RUNNING
      then unguarded False (notify_observers_trace (l\<lparr>running := False, state := IDLE\<rparr>))
      else []) \<and>
   unguarded True (notify_observers_trace l) = [] \<and>
   unguarded False (notify_observers_trace l) =
     [Read F_production_rate, Read F_error_count, Read F_total_produced] @
     map (\<lambda>ob. Read F_state) (observers l)"
  by (simp add: simulate_production_cycle_trace_def perform_maintenance_trace_def
      start_production_trace_def stop_production_trace_def produce_trace_def
      unguarded_append unguarded_notify lock_after_append)

text \<open>\<open>_update_metrics\<close> reads the counters and appends to \<open>metrics_history\<close> without
  the lock; an iteration whose cycle raises assigns \<open>state\<close> and builds the snapshot
  without the lock; the snapshot after an accepted start is read without the lock.\<close>

theorem lock_discipline_counterexample:
  "unguarded False update_metrics_trace =
     [Read F_metrics_history, Write F_metrics_history,
      Read F_metrics_history, Read F_production_rate, Write F_metrics_history,
      Read F_metrics_history, Read F_error_count, Write F_metrics_history,
      Read F_metrics_history, Read F_total_produced, Write F_metrics_history] \<and>
   unguarded False (iteration_trace e_fault (line w5)) =
     [Write F_state, Read F_production_rate, Read F_error_count, Read F_total_produced,
      Read F_state] \<and>
   unguarded False (start_production_trace (ProductionLine_init load_config 0)) =
     [Read F_production_rate, Read F_error_count, Read F_total_produced]"
proof -
  have "unguarded False (iteration_trace e_fault (line w5)) =
     [Write F_state, Read F_production_rate, Read F_error_count, Read F_total_produced,
      Read F_state]"
    using w5_facts
    by (simp add: iteration_trace_def simulate_production_cycle_trace_def unguarded_append
        lock_after_append unguarded_notify)
       (simp add: w5_def e_fault_def load_config_def Let_def start_production_def
        notify_observers_def register_observer_def fresh_def ProductionLine_init_def)
  moreover have "unguarded False (start_production_trace (ProductionLine_init load_config 0)) =
     [Read F_production_rate, Read F_error_count, Read F_total_produced]"
    by (simp add: start_production_trace_def unguarded_notify ProductionLine_init_def)
  ultimately show ?thesis by (simp add: update_metrics_trace_def)
qed

subsection \<open>The error count\<close>




subsection \<open>What the raising cycle changes\<close>

text \<open>
  C10. A call of \<open>_simulate_production_cycle\<close> that raises leaves the line as it was but
  for \<open>error_count\<close>, which is one higher: \<open>production_rate\<close>, \<open>total_produced\<close>,
  \<open>state\<close> and \<open>metrics_history\<close> are unchanged. The loop iteration it belongs to
  appends nothing to \<open>metrics_history\<close> either.
\<close>

theorem fatal_cycle_frame:
  assumes "simulate_production_cycle (draw_error e) (draw_rate e) (line w) = Inl (ex, l1)"
  shows "l1 = (line w)\<lparr>error_count := error_count (line w) + 1\<rparr> \<and>
    error_count l1 = error_count (line w) + 1 \<and>
    production_rate l1 = production_rate (line w) \<and>
    total_produced l1 = total_produced (line w) \<and>
    state l1 = state (line w) \<and>
    metrics_history l1 = metrics_history (line w) \<and>
    metrics_history (line (outcome_world (run_production (e # es) w))) = metrics_history (line w)"
proof -
  from assms have l1: "l1 = (line w)\<lparr>error_count := error_count (line w) + 1\<rparr>"
    by (simp add: cycle_Inl)
  have "metrics_history (line (outcome_world (run_production (e # es) w))) = metrics_history (line w)"
    using assms l1 by (simp add: notify_observers_def)
  then show ?thesis using l1 by simp
qed

text \<open>The sixth error on a line that has counted five.\<close>

theorem fatal_cycle_frame_witness:
  "simulate_production_cycle (draw_error e_fault) (draw_rate e_fault) (line w5) =
     Inl (RuntimeError ''Too many errors'', (line w5)\<lparr>error_count := 6\<rparr>) \<and>
   error_count ((line w5)\<lparr>error_count := 6\<rparr>) = error_count (line w5) + 1 \<and>
   total_produced ((line w5)\<lparr>error_count := 6\<rparr>) = total_produced (line w5) \<and>
   metrics_history (line (outcome_world (run_production (e_fault # env10) w5))) =
     metrics_history (line w5)"
  using w5_facts(2) fatal_cycle_frame [OF w5_facts(2), of env10] by blast

end
